theory Spec2Isabelle
  imports Main "HOL-Library.Word"
begin

section \<open>USBCat: the read side of examples/usbcat/device.py\<close>

text \<open>
  The handlers of class \<open>USBCat\<close> and the \<open>noIntrEpoll\<close> loop of \<open>main\<close>, as functions on
  an explicit object state. Every call that leaves the program (to the AIO context, the
  eventfd, the writer, the trace function) is recorded, in program order, in a list of
  effects. What the outside answers is a parameter of the handler that asks:
  the outcome of each \<open>cancel\<close>, the counter read from the eventfd, the outcomes of the
  successive \<open>epoll.poll()\<close> calls. The two calls the source wraps in a \<open>try\<close> statement
  (\<open>cancel\<close>, \<open>poll\<close>) may raise any exception; the calls made outside a \<open>try\<close> statement
  (\<open>submit\<close>, \<open>eventfd.read\<close>, \<open>getEvents\<close>, the writer, \<open>trace\<close>) are taken to return.
\<close>

subsection \<open>Constants\<close>

definition PENDING_READ_COUNT :: nat where
  "PENDING_READ_COUNT = 2"

definition BUF_SIZE :: nat where
  "BUF_SIZE = 1024 * 1024"

text \<open>\<open>errno.EINTR\<close> and \<open>errno.ESHUTDOWN\<close>, with their Linux values.\<close>

definition EINTR :: int where
  "EINTR = 4"

definition ESHUTDOWN :: int where
  "ESHUTDOWN = 108"

subsection \<open>Data\<close>

type_synonym byte = "8 word"

text \<open>A reference to a \<open>bytearray\<close> object of the Python heap.\<close>

type_synonym ref = nat

text \<open>
  Python 2 exception classes. \<open>OSError\<close> and \<open>IOError\<close> are different classes there
  (each constructor stands for the class and its subclasses); both carry their \<open>errno\<close>
  attribute, which is \<open>None\<close> when the exception was built without arguments.
\<close>

datatype exc =
    OSError "int option"
  | IOError "int option"
  | KeyboardInterrupt
  | EOFError
  | IndexError

datatype aio_mode = AIOBLOCK_MODE_READ

text \<open>
  \<open>libaio.AIOBlock(mode, target_file, buffer_list, offset, eventfd, onCompletion)\<close>;
  \<open>block_id\<close> is the identity of the block object, \<open>target_file\<close> the endpoint number
  given to \<open>getEndpoint\<close>. The eventfd and the completion callback are the same for every
  block (\<open>self.eventfd\<close>, \<open>self._onReceived\<close>).
\<close>

record AIOBlock =
  block_id :: nat
  mode :: aio_mode
  target_file :: nat
  buffer_list :: "ref list"
  offset :: int

datatype trace_msg =
    TraceOnBind
  | TraceOnUnbind
  | TraceOnEnable
  | TraceOnDisable
  | TraceCancelRaised AIOBlock exc
  | TraceEventfdReports int
  | TraceCompletionError int
  | TraceCompletionReceived int

text \<open>
  The calls that leave the program. \<open>GetEvents\<close> carries the argument list of the call,
  \<open>Writer\<close> the bytes handed to \<open>self._writer\<close>.
\<close>

datatype effect =
    Trace trace_msg
  | Submit "AIOBlock list"
  | Cancel AIOBlock
  | EventfdRead
  | GetEvents "int list"
  | Writer "byte list"

text \<open>
  The object: \<open>self._enabled\<close>, \<open>self._aio_recv_block_list\<close>, and the store holding the
  contents of the \<open>bytearray\<close> objects the blocks refer to.
\<close>

record USBCat =
  enabled :: bool
  aio_recv_block_list :: "AIOBlock list"
  bytearrays :: "ref \<Rightarrow> byte list"

text \<open>
  What a handler leaves behind: the calls it made, the object as it is when the handler
  ends, and the exception that ended it, if one did.
\<close>

record outcome =
  effects :: "effect list"
  final :: USBCat
  raised :: "exc option"

subsection \<open>Reading an effect list\<close>

fun cancels :: "effect list \<Rightarrow> AIOBlock list" where
  "cancels [] = []"
| "cancels (Cancel b # es) = b # cancels es"
| "cancels (_ # es) = cancels es"

fun submits :: "effect list \<Rightarrow> AIOBlock list list" where
  "submits [] = []"
| "submits (Submit bs # es) = bs # submits es"
| "submits (_ # es) = submits es"

fun writes :: "effect list \<Rightarrow> byte list list" where
  "writes [] = []"
| "writes (Writer p # es) = p # writes es"
| "writes (_ # es) = writes es"

subsection \<open>Construction\<close>

text \<open>
  \<open>__init__\<close>: \<open>PENDING_READ_COUNT\<close> read blocks on endpoint 2, each with one fresh
  \<open>bytearray(BUF_SIZE)\<close>, which Python fills with zero bytes. \<open>_enabled\<close> is the class
  attribute \<open>False\<close>. Block \<open>i\<close> refers to bytearray \<open>i\<close>.
\<close>

definition new_block :: "nat \<Rightarrow> AIOBlock" where
  "new_block i =
     \<lparr>block_id = i, mode = AIOBLOCK_MODE_READ, target_file = 2,
      buffer_list = [i], offset = 0\<rparr>"

definition init :: USBCat where
  "init =
     \<lparr>enabled = False,
      aio_recv_block_list = map new_block [0..<PENDING_READ_COUNT],
      bytearrays = (\<lambda>r. if r < PENDING_READ_COUNT then replicate BUF_SIZE 0 else [])\<rparr>"

subsection \<open>Lifecycle handlers\<close>

definition onBind :: "USBCat \<Rightarrow> outcome" where
  "onBind s = \<lparr>effects = [Trace TraceOnBind], final = s, raised = None\<rparr>"

definition onUnbind :: "USBCat \<Rightarrow> outcome" where
  "onUnbind s =
     \<lparr>effects = [Trace TraceOnUnbind], final = s\<lparr>enabled := False\<rparr>, raised = None\<rparr>"

text \<open>
  The loop of \<open>_disable\<close> over the block list. \<open>c i\<close> is what the \<open>i\<close>-th \<open>cancel\<close> call of
  this invocation does: \<open>None\<close> when it returns, \<open>Some e\<close> when it raises \<open>e\<close>. An
  \<open>OSError\<close> is caught and traced, and the loop goes on; any other exception leaves the
  loop and the handler.
\<close>

fun cancel_loop :: "(nat \<Rightarrow> exc option) \<Rightarrow> nat \<Rightarrow> AIOBlock list \<Rightarrow> effect list \<times> exc option" where
  "cancel_loop c i [] = ([], None)"
| "cancel_loop c i (block # rest) =
     (case c i of
        None \<Rightarrow>
          (case cancel_loop c (Suc i) rest of (es, r) \<Rightarrow> (Cancel block # es, r))
      | Some (OSError en) \<Rightarrow>
          (case cancel_loop c (Suc i) rest of
             (es, r) \<Rightarrow> (Cancel block # Trace (TraceCancelRaised block (OSError en)) # es, r))
      | Some e \<Rightarrow> ([Cancel block], Some e))"

text \<open>\<open>_disable\<close>.\<close>

definition disable :: "(nat \<Rightarrow> exc option) \<Rightarrow> USBCat \<Rightarrow> outcome" where
  "disable c s =
     (if enabled s then
        (case cancel_loop c 0 (aio_recv_block_list s) of
           (es, None) \<Rightarrow> \<lparr>effects = es, final = s\<lparr>enabled := False\<rparr>, raised = None\<rparr>
         | (es, Some e) \<Rightarrow> \<lparr>effects = es, final = s, raised = Some e\<rparr>)
      else \<lparr>effects = [], final = s, raised = None\<rparr>)"

definition onDisable :: "(nat \<Rightarrow> exc option) \<Rightarrow> USBCat \<Rightarrow> outcome" where
  "onDisable c s =
     (let d = disable c s in d\<lparr>effects := Trace TraceOnDisable # effects d\<rparr>)"

definition onEnable :: "(nat \<Rightarrow> exc option) \<Rightarrow> USBCat \<Rightarrow> outcome" where
  "onEnable c s =
     (let d = disable c s in
      case raised d of
        Some e \<Rightarrow> d\<lparr>effects := Trace TraceOnEnable # effects d\<rparr>
      | None \<Rightarrow>
          \<lparr>effects = Trace TraceOnEnable # effects d @ [Submit (aio_recv_block_list (final d))],
           final = (final d)\<lparr>enabled := True\<rparr>,
           raised = None\<rparr>)"

subsection \<open>Completion handlers\<close>

text \<open>
  \<open>onAIOCompletion\<close>; \<open>event_count\<close> is the value \<open>self.eventfd.read()\<close> returns. The
  completions that \<open>getEvents\<close> collects reach \<open>_onReceived\<close> through the callback stored in
  each block; every such call is an invocation of \<open>onReceived\<close> below.
\<close>

definition onAIOCompletion :: "int \<Rightarrow> USBCat \<Rightarrow> outcome" where
  "onAIOCompletion event_count s =
     \<lparr>effects = [EventfdRead, Trace (TraceEventfdReports event_count), GetEvents []],
      final = s, raised = None\<rparr>"

text \<open>
  \<open>_onReceived\<close>. In the \<open>else\<close> branch \<open>res\<close> is not negative, so the slice \<open>[:res]\<close> is
  the first \<open>res\<close> bytes, or the whole bytearray when it is shorter. \<open>buffer_list[0]\<close>
  raises \<open>IndexError\<close> on an empty list.
\<close>

definition onReceived :: "AIOBlock \<Rightarrow> int \<Rightarrow> int \<Rightarrow> USBCat \<Rightarrow> outcome" where
  "onReceived block res res2 s =
     (let resubmit = (if res \<noteq> - ESHUTDOWN then [Submit [block]] else []) in
      if res < 0 then
        \<lparr>effects = resubmit @ [Trace (TraceCompletionError (- res))],
         final = s, raised = None\<rparr>
      else
        (case buffer_list block of
           [] \<Rightarrow>
             \<lparr>effects = resubmit @ [Trace (TraceCompletionReceived res)],
              final = s, raised = Some IndexError\<rparr>
         | r # _ \<Rightarrow>
             \<lparr>effects = resubmit @
                [Trace (TraceCompletionReceived res), Writer (take (nat res) (bytearrays s r))],
              final = s, raised = None\<rparr>))"

subsection \<open>The readiness wait\<close>

text \<open>
  \<open>noIntrEpoll\<close>. The argument lists what the successive calls of \<open>epoll.poll()\<close> do, the
  first call first. The loop ends at the first call that returns or that raises
  anything but an \<open>IOError\<close> with \<open>errno = EINTR\<close>; \<open>None\<close> says that every listed call was
  interrupted and the loop is about to poll again.
\<close>

datatype 'a call = Returns 'a | Raises exc

fun noIntrEpoll :: "'a call list \<Rightarrow> (exc + 'a) option" where
  "noIntrEpoll [] = None"
| "noIntrEpoll (Returns ready # later) = Some (Inr ready)"
| "noIntrEpoll (Raises (IOError en) # later) =
     (if en \<noteq> Some EINTR then Some (Inl (IOError en)) else noIntrEpoll later)"
| "noIntrEpoll (Raises e # later) = Some (Inl e)"

subsection \<open>Notions used in the statements\<close>

text \<open>The calls of an effect list other than the traces.\<close>

fun untraced :: "effect list \<Rightarrow> effect list" where
  "untraced [] = []"
| "untraced (Trace m # es) = untraced es"
| "untraced (e # es) = e # untraced es"

text \<open>
  The outcomes of \<open>cancel\<close> that the \<open>try\<close> statement of \<open>_disable\<close> absorbs: the call
  returned, or it raised an \<open>OSError\<close>.
\<close>

fun caught :: "exc option \<Rightarrow> bool" where
  "caught None = True"
| "caught (Some (OSError en)) = True"
| "caught (Some e) = False"

text \<open>
  What cancelling a list of blocks is meant to look like from outside: one \<open>cancel\<close> per
  block, in list order, each followed by a trace exactly when it raised. The \<open>i\<close>-th
  block of the list meets the \<open>(i0 + i)\<close>-th outcome.
\<close>

definition cancel_effects :: "(nat \<Rightarrow> exc option) \<Rightarrow> nat \<Rightarrow> AIOBlock list \<Rightarrow> effect list" where
  "cancel_effects c i0 blocks =
     concat (map (\<lambda>(j, b). Cancel b #
                    (case c j of None \<Rightarrow> [] | Some e \<Rightarrow> [Trace (TraceCancelRaised b e)]))
                 (enumerate i0 blocks))"

text \<open>
  The pool is the one \<open>__init__\<close> built (the same blocks, each referring to the bytearray
  allocated for it), and every bytearray of the pool still has its \<open>BUF_SIZE\<close> bytes,
  whatever they now contain.
\<close>

definition pool_ok :: "USBCat \<Rightarrow> bool" where
  "pool_ok s =
     (aio_recv_block_list s = aio_recv_block_list init
      \<and> list_all (\<lambda>b. list_all (\<lambda>r. length (bytearrays s r) = BUF_SIZE) (buffer_list b))
            (aio_recv_block_list s))"

subsection \<open>The loop and the reads in flight\<close>













section \<open>Properties\<close>

subsection \<open>Auxiliary facts\<close>



lemma cancel_effects_Nil: "cancel_effects c i [] = []"
  by (simp add: cancel_effects_def)

lemma cancel_effects_Cons:
  "cancel_effects c i (b # bs) =
     Cancel b # (case c i of None \<Rightarrow> [] | Some e \<Rightarrow> [Trace (TraceCancelRaised b e)])
       @ cancel_effects c (Suc i) bs"
  by (simp add: cancel_effects_def)

lemma cancels_cancel_effects: "cancels (cancel_effects c i blocks) = blocks"
  by (induction blocks arbitrary: i)
     (simp_all add: cancel_effects_Nil cancel_effects_Cons split: option.split)

lemma submits_cancel_effects: "submits (cancel_effects c i blocks) = []"
  by (induction blocks arbitrary: i)
     (simp_all add: cancel_effects_Nil cancel_effects_Cons split: option.split)

text \<open>When every outcome is absorbed, the loop runs to its end.\<close>

lemma cancel_loop_caught:
  "(\<And>j. caught (c j)) \<Longrightarrow> cancel_loop c i blocks = (cancel_effects c i blocks, None)"
proof (induction blocks arbitrary: i)
  case Nil
  show ?case by (simp add: cancel_effects_Nil)
next
  case (Cons b bs)
  have rest: "cancel_loop c (Suc i) bs = (cancel_effects c (Suc i) bs, None)"
    using Cons by blast
  show ?case
  proof (cases "c i")
    case None
    then show ?thesis by (simp add: rest cancel_effects_Cons)
  next
    case (Some e)
    with Cons.prems [of i] obtain en where "e = OSError en"
      by (cases e) simp_all
    with Some show ?thesis by (simp add: rest cancel_effects_Cons)
  qed
qed

lemma disable_caught:
  "(\<And>j. caught (c j)) \<Longrightarrow>
   disable c s =
     (if enabled s
      then \<lparr>effects = cancel_effects c 0 (aio_recv_block_list s),
            final = s\<lparr>enabled := False\<rparr>, raised = None\<rparr>
      else \<lparr>effects = [], final = s, raised = None\<rparr>)"
  by (simp add: disable_def cancel_loop_caught)

lemma disable_returned:
  "raised (disable c s) = None \<Longrightarrow> final (disable c s) = s\<lparr>enabled := False\<rparr>"
  by (cases "cancel_loop c 0 (aio_recv_block_list s)")
     (auto simp: disable_def split: option.splits)

lemma disable_when_disabled:
  "\<not> enabled s \<Longrightarrow> disable c s = \<lparr>effects = [], final = s, raised = None\<rparr>"
  by (simp add: disable_def)

text \<open>No handler touches the block list or the bytearrays.\<close>

lemma disable_keeps_pool:
  "aio_recv_block_list (final (disable c s)) = aio_recv_block_list s
   \<and> bytearrays (final (disable c s)) = bytearrays s"
  by (cases "cancel_loop c 0 (aio_recv_block_list s)")
     (auto simp: disable_def split: option.splits)

lemma onDisable_keeps_pool:
  "aio_recv_block_list (final (onDisable c s)) = aio_recv_block_list s
   \<and> bytearrays (final (onDisable c s)) = bytearrays s"
  by (simp add: onDisable_def Let_def disable_keeps_pool)

lemma onEnable_keeps_pool:
  "aio_recv_block_list (final (onEnable c s)) = aio_recv_block_list s
   \<and> bytearrays (final (onEnable c s)) = bytearrays s"
  by (simp add: onEnable_def Let_def disable_keeps_pool split: option.split)

lemma pool_ok_cong:
  "aio_recv_block_list t = aio_recv_block_list s \<Longrightarrow> bytearrays t = bytearrays s \<Longrightarrow>
   pool_ok t = pool_ok s"
  by (simp add: pool_ok_def)

lemma pool_ok_init: "pool_ok init"
  by (simp add: pool_ok_def init_def new_block_def list_all_iff)

lemma noIntrEpoll_interrupted:
  "noIntrEpoll (replicate n (Raises (IOError (Some EINTR))) @ later) = noIntrEpoll later"
  by (induction n) simp_all

subsection \<open>The completion handler\<close>

text \<open>
  C1. For every completion delivered to \<open>_onReceived\<close>: when the result code is
  \<open>-ESHUTDOWN\<close> the handler submits nothing (the slot is retired); for every other result
  code, success or error, it submits exactly once, and what it submits is that same
  block alone. It cancels nothing and leaves the object as it was.
\<close>

theorem onReceived_resubmits_unless_shutdown:
  "submits (effects (onReceived block res res2 s)) = (if res = - ESHUTDOWN then [] else [[block]])
   \<and> cancels (effects (onReceived block res res2 s)) = []
   \<and> final (onReceived block res res2 s) = s"
  by (simp add: onReceived_def Let_def split: list.split)

text \<open>
  C2, as the claim has it, says that a completion with byte count 0 forwards nothing.
  The test of the source is \<open>res < 0\<close>, so at \<open>res = 0\<close> the \<open>else\<close> branch runs: the
  writer is called, with the empty slice.
\<close>

theorem onReceived_zero_bytes_calls_writer:
  "(0::int) \<noteq> - ESHUTDOWN \<and> \<not> (0::int) < 0
   \<and> writes (effects (onReceived (new_block 0) 0 0 init)) = [[]]"
  by (simp add: onReceived_def new_block_def ESHUTDOWN_def)

text \<open>
  C2, amended. For every completion with a result code other than \<open>-ESHUTDOWN\<close> on a
  block that has a buffer, the handler first resubmits the same block and only then
  traces and forwards: the writer is called if and only if the result code is not
  negative, once, with the first \<open>res\<close> bytes of the block's first buffer. A completion
  with byte count 0 therefore calls the writer once with an empty payload.
\<close>

theorem onReceived_resubmits_then_forwards:
  assumes "res \<noteq> - ESHUTDOWN" and "buffer_list block = r # rs"
  shows "effects (onReceived block res res2 s) =
           Submit [block] #
             (if res < 0 then [Trace (TraceCompletionError (- res))]
              else [Trace (TraceCompletionReceived res),
                    Writer (take (nat res) (bytearrays s r))])
       \<and> writes (effects (onReceived block res res2 s)) =
           (if res < 0 then [] else [take (nat res) (bytearrays s r)])
       \<and> writes (effects (onReceived block 0 res2 s)) = [[]]
       \<and> raised (onReceived block res res2 s) = None"
  using assms by (simp add: onReceived_def Let_def ESHUTDOWN_def)

theorem onReceived_resubmits_then_forwards_witness:
  "(3::int) \<noteq> - ESHUTDOWN \<and> buffer_list (new_block 1) = 1 # []
   \<and> effects (onReceived (new_block 1) 3 0 (init\<lparr>bytearrays := (\<lambda>r. [65, 66, 67, 68])\<rparr>)) =
       [Submit [new_block 1], Trace (TraceCompletionReceived 3), Writer [65, 66, 67]]
   \<and> (- 5::int) \<noteq> - ESHUTDOWN
   \<and> writes (effects (onReceived (new_block 1) (- 5) 0 init)) = []"
proof -
  have ne: "(3::int) \<noteq> - ESHUTDOWN" and ne': "(- 5::int) \<noteq> - ESHUTDOWN"
    by (simp_all add: ESHUTDOWN_def)
  have bl: "buffer_list (new_block 1) = 1 # []"
    by (simp add: new_block_def)
  from onReceived_resubmits_then_forwards [OF ne bl, of 0 "init\<lparr>bytearrays := (\<lambda>r. [65, 66, 67, 68])\<rparr>"]
    onReceived_resubmits_then_forwards [OF ne' bl, of 0 init] ne ne' bl
  show ?thesis by simp
qed

text \<open>
  C10. For every completion with a result \<open>res\<close> that is not negative, on a block of the
  pool: the writer receives exactly the first \<open>res\<close> bytes of that block's own buffer (its
  one bytearray), at most \<open>BUF_SIZE\<close> of them; the block resubmitted is the block that
  completed, with the buffer it had; and the pool stays the one \<open>__init__\<close> built, after
  this handler and after every other one.
\<close>

theorem onReceived_forwards_prefix_of_own_buffer:
  assumes "pool_ok s" and "block \<in> set (aio_recv_block_list s)" and "0 \<le> res"
  shows "length (buffer_list block) = 1
       \<and> writes (effects (onReceived block res res2 s)) =
           [take (nat res) (bytearrays s (hd (buffer_list block)))]
       \<and> length (take (nat res) (bytearrays s (hd (buffer_list block)))) = min (nat res) BUF_SIZE
       \<and> list_all (\<lambda>p. length p \<le> BUF_SIZE) (writes (effects (onReceived block res res2 s)))
       \<and> submits (effects (onReceived block res res2 s)) = [[block]]
       \<and> final (onReceived block res res2 s) = s
       \<and> pool_ok (final (onReceived block res res2 s))
       \<and> pool_ok (final (onBind s)) \<and> pool_ok (final (onUnbind s))
       \<and> pool_ok (final (onEnable c s)) \<and> pool_ok (final (onDisable c s))
       \<and> pool_ok (final (onAIOCompletion event_count s))"
proof -
  from assms(1,2) have "block \<in> set (aio_recv_block_list init)"
    by (simp add: pool_ok_def)
  then obtain i where "block = new_block i"
    by (auto simp: init_def)
  then have bl: "buffer_list block = [i]"
    by (simp add: new_block_def)
  from assms(1,2) have "list_all (\<lambda>r. length (bytearrays s r) = BUF_SIZE) (buffer_list block)"
    by (simp add: pool_ok_def list_all_iff)
  with bl have len: "length (bytearrays s i) = BUF_SIZE"
    by simp
  from assms(3) have ne: "res \<noteq> - ESHUTDOWN"
    by (simp add: ESHUTDOWN_def)
  from assms(3) have nn: "\<not> res < 0"
    by simp
  have eff: "effects (onReceived block res res2 s) =
      [Submit [block], Trace (TraceCompletionReceived res),
       Writer (take (nat res) (bytearrays s i))]"
    using ne nn bl by (simp add: onReceived_def Let_def)
  have fin: "final (onReceived block res res2 s) = s"
    by (simp add: onReceived_def Let_def split: list.split)
  have others: "pool_ok (final (onBind s))" "pool_ok (final (onUnbind s))"
      "pool_ok (final (onEnable c s))" "pool_ok (final (onDisable c s))"
      "pool_ok (final (onAIOCompletion event_count s))"
    using assms(1)
    by (auto simp: pool_ok_def onEnable_keeps_pool onDisable_keeps_pool
          onBind_def onAIOCompletion_def onUnbind_def)
  show ?thesis
    using assms(1) others by (simp add: eff fin bl len)
qed

theorem onReceived_forwards_prefix_of_own_buffer_witness:
  "pool_ok init \<and> new_block 0 \<in> set (aio_recv_block_list init) \<and> (0::int) \<le> 3
   \<and> writes (effects (onReceived (new_block 0) 3 0 init)) = [take 3 (replicate BUF_SIZE 0)]
   \<and> length (take (nat 3) (bytearrays init (hd (buffer_list (new_block 0))))) = 3"
proof -
  have mem: "new_block 0 \<in> set (aio_recv_block_list init)"
    by (simp add: init_def PENDING_READ_COUNT_def upt_conv_Cons)
  have nn: "(0::int) \<le> 3"
    by simp
  have r: "hd (buffer_list (new_block 0)) = 0" "bytearrays init 0 = replicate BUF_SIZE 0"
    by (simp_all add: new_block_def init_def PENDING_READ_COUNT_def)
  have big: "min 3 BUF_SIZE = 3"
    by (simp add: BUF_SIZE_def)
  from onReceived_forwards_prefix_of_own_buffer [OF pool_ok_init mem nn, of 0]
  show ?thesis
    using pool_ok_init mem by (simp add: r big)
qed

subsection \<open>Disable, enable, unbind\<close>

text \<open>
  C3. Disable is idempotent. From every starting state, once a first \<open>_disable\<close> has
  returned, a second one in a row finds the flag cleared: it makes no call at all, so no
  cancellation request, whatever \<open>cancel\<close> would have answered, and it leaves the state
  the first one left. The same holds of \<open>onDisable\<close>, whose second invocation only traces.
\<close>

theorem disable_twice_same_as_once:
  assumes "raised (disable c1 s) = None"
  shows "final (disable c2 (final (disable c1 s))) = final (disable c1 s)
       \<and> effects (disable c2 (final (disable c1 s))) = []
       \<and> cancels (effects (disable c2 (final (disable c1 s)))) = []
       \<and> raised (disable c2 (final (disable c1 s))) = None
       \<and> final (onDisable c2 (final (onDisable c1 s))) = final (onDisable c1 s)
       \<and> effects (onDisable c2 (final (onDisable c1 s))) = [Trace TraceOnDisable]
       \<and> cancels (effects (onDisable c2 (final (onDisable c1 s)))) = []
       \<and> raised (onDisable c2 (final (onDisable c1 s))) = None"
proof -
  from assms have "\<not> enabled (final (disable c1 s))"
    by (simp add: disable_returned)
  then have "disable c2 (final (disable c1 s)) =
      \<lparr>effects = [], final = final (disable c1 s), raised = None\<rparr>"
    by (rule disable_when_disabled)
  then show ?thesis
    by (simp add: onDisable_def Let_def)
qed

theorem disable_twice_same_as_once_witness:
  "raised (disable (\<lambda>i. if i = 0 then Some (OSError (Some 22)) else None)
     (init\<lparr>enabled := True\<rparr>)) = None
   \<and> cancels (effects (disable (\<lambda>i. if i = 0 then Some (OSError (Some 22)) else None)
       (init\<lparr>enabled := True\<rparr>))) = [new_block 0, new_block 1]
   \<and> effects (disable (\<lambda>i. Some KeyboardInterrupt)
       (final (disable (\<lambda>i. if i = 0 then Some (OSError (Some 22)) else None)
          (init\<lparr>enabled := True\<rparr>)))) = []"
proof -
  have h: "raised (disable (\<lambda>i. if i = 0 then Some (OSError (Some 22)) else None)
      (init\<lparr>enabled := True\<rparr>)) = None"
    by (simp add: disable_def init_def PENDING_READ_COUNT_def upt_conv_Cons)
  have k: "cancels (effects (disable (\<lambda>i. if i = 0 then Some (OSError (Some 22)) else None)
      (init\<lparr>enabled := True\<rparr>))) = [new_block 0, new_block 1]"
    by (simp add: disable_def init_def PENDING_READ_COUNT_def upt_conv_Cons)
  from disable_twice_same_as_once [OF h, of "\<lambda>i. Some KeyboardInterrupt"] h k
  show ?thesis by simp
qed



text \<open>
  C5. \<open>onUnbind\<close> clears the enabled flag and does nothing else: its only call is the
  trace, so no cancellation (and no submission) reaches the AIO context, and the block
  list and the bytearrays are those of the starting state.
\<close>

theorem onUnbind_only_clears_enabled:
  "effects (onUnbind s) = [Trace TraceOnUnbind]
   \<and> cancels (effects (onUnbind s)) = []
   \<and> submits (effects (onUnbind s)) = []
   \<and> raised (onUnbind s) = None
   \<and> \<not> enabled (final (onUnbind s))
   \<and> final (onUnbind s) = s\<lparr>enabled := False\<rparr>
   \<and> aio_recv_block_list (final (onUnbind s)) = aio_recv_block_list s
   \<and> bytearrays (final (onUnbind s)) = bytearrays s"
  by (simp add: onUnbind_def)

text \<open>
  C6. Disable from the enabled state, when each \<open>cancel\<close> either returns or raises an
  \<open>OSError\<close>: every block of the pool gets its cancellation request, in list order; a
  request that raised is followed by a trace and by the requests for the remaining
  blocks; nothing is submitted; the flag is cleared; and no exception leaves the handler.
\<close>

theorem disable_cancels_every_slot:
  assumes "enabled s" and "\<forall>i. caught (c i)"
  shows "effects (disable c s) = cancel_effects c 0 (aio_recv_block_list s)
       \<and> cancels (effects (disable c s)) = aio_recv_block_list s
       \<and> submits (effects (disable c s)) = []
       \<and> raised (disable c s) = None
       \<and> \<not> enabled (final (disable c s))
       \<and> final (disable c s) = s\<lparr>enabled := False\<rparr>
       \<and> raised (onDisable c s) = None
       \<and> cancels (effects (onDisable c s)) = aio_recv_block_list s
       \<and> final (onDisable c s) = s\<lparr>enabled := False\<rparr>"
  using assms
  by (simp add: onDisable_def Let_def disable_caught cancels_cancel_effects
        submits_cancel_effects)

theorem disable_cancels_every_slot_witness:
  "enabled (init\<lparr>enabled := True\<rparr>)
   \<and> (\<forall>i. caught (if i = 0 then Some (OSError (Some 22)) else None))
   \<and> effects (disable (\<lambda>i. if i = 0 then Some (OSError (Some 22)) else None)
        (init\<lparr>enabled := True\<rparr>)) =
       [Cancel (new_block 0), Trace (TraceCancelRaised (new_block 0) (OSError (Some 22))),
        Cancel (new_block 1)]
   \<and> \<not> enabled (final (disable (\<lambda>i. if i = 0 then Some (OSError (Some 22)) else None)
        (init\<lparr>enabled := True\<rparr>)))"
proof -
  have e: "enabled (init\<lparr>enabled := True\<rparr>)"
    by simp
  have h: "\<forall>i. caught (if i = 0 then Some (OSError (Some 22)) else None)"
    by simp
  from disable_cancels_every_slot [OF e h] e h
  show ?thesis
    by (simp add: init_def PENDING_READ_COUNT_def upt_conv_Cons cancel_effects_def)
qed

subsection \<open>Completion notification and the readiness wait\<close>

text \<open>
  C7. Every invocation of \<open>onAIOCompletion\<close> first reads the eventfd counter, then
  collects completion events with a \<open>getEvents\<close> call that has no argument: no count is
  requested. The counter value goes to the trace and nowhere else; the calls other than
  the trace are the same for every counter value, and the object is left as it was.
\<close>

theorem onAIOCompletion_drains_then_collects:
  "effects (onAIOCompletion event_count s) =
     [EventfdRead, Trace (TraceEventfdReports event_count), GetEvents []]
   \<and> untraced (effects (onAIOCompletion event_count s)) = [EventfdRead, GetEvents []]
   \<and> final (onAIOCompletion event_count s) = s
   \<and> raised (onAIOCompletion event_count s) = None"
  by (simp add: onAIOCompletion_def)

text \<open>
  C8. \<open>noIntrEpoll\<close> retries on \<open>EINTR\<close>: after any number \<open>n\<close> of consecutive polls
  that raise \<open>IOError\<close> with \<open>errno = EINTR\<close>, a poll that returns makes the loop return
  what it returned, and a poll that raises \<open>IOError\<close> with any other \<open>errno\<close> makes the
  loop raise that error; as long as every poll is interrupted the loop has neither
  returned nor raised.
\<close>

theorem noIntrEpoll_retries_on_EINTR:
  "noIntrEpoll (replicate n (Raises (IOError (Some EINTR))) @ Returns ready # later)
     = Some (Inr ready)
   \<and> (en \<noteq> Some EINTR \<longrightarrow>
        noIntrEpoll (replicate n (Raises (IOError (Some EINTR))) @ Raises (IOError en) # later)
          = Some (Inl (IOError en)))
   \<and> noIntrEpoll (replicate n (Raises (IOError (Some EINTR))) :: 'a call list) = None"
  using noIntrEpoll_interrupted [of n "[] :: 'a call list"]
  by (simp add: noIntrEpoll_interrupted)

theorem noIntrEpoll_retries_on_EINTR_witness:
  "Some (5::int) \<noteq> Some EINTR
   \<and> noIntrEpoll (replicate 3 (Raises (IOError (Some EINTR)))
        @ Raises (IOError (Some 5)) # [Returns [(4::int, 1::int)]])
       = Some (Inl (IOError (Some 5)))
   \<and> noIntrEpoll (replicate 3 (Raises (IOError (Some EINTR))) @ Returns [(4::int, 1::int)] # [])
       = Some (Inr [(4, 1)])"
proof -
  have ne: "Some (5::int) \<noteq> Some EINTR"
    by (simp add: EINTR_def)
  from noIntrEpoll_retries_on_EINTR
      [where n = 3 and ready = "[(4::int, 1::int)]" and en = "Some 5"
         and later = "[Returns [(4::int, 1::int)]]"]
    noIntrEpoll_retries_on_EINTR
      [where n = 3 and ready = "[(4::int, 1::int)]" and en = "Some 5" and later = "[]"] ne
  show ?thesis by blast
qed

subsection \<open>Reads in flight\<close>


















end
